theory Spec2Isabelle
  imports Main "HOL-Library.Word" "HOL-Library.AList"
begin

section \<open>Values of the Go runtime and libraries that the transport touches\<close>

text \<open>
  A Go \<open>string\<close>, a \<open>[]byte\<close> and a \<open>json.RawMessage\<close> are byte sequences: \<open>string\<close>
  here. A \<open>time.Duration\<close> is a signed 64-bit count of nanoseconds, so \<open>2 * d\<close> wraps;
  an instant is an unbounded count of nanoseconds, and \<open>Time.Add\<close> adds the signed
  value of the duration.
\<close>

type_synonym Duration = "64 word"
type_synonym Time = int

definition time_Add :: "Time \<Rightarrow> Duration \<Rightarrow> Time" where
  "time_Add now d = now + sint d"

text \<open>
  The errors the transport tells apart. \<open>errReadTimeout\<close> is declared in websocket.go;
  \<open>errInvalidMsg\<close> and \<open>errWsConnClosed\<close> are the package's other sentinels;
  \<open>net_ErrClosed\<close> stands for an error that \<open>errors.Is(err, net.ErrClosed)\<close> accepts;
  \<open>CloseError\<close> is gorilla's \<open>*websocket.CloseError\<close> with its code and text.
\<close>

datatype error =
    errReadTimeout
  | errInvalidMsg
  | errWsConnClosed
  | net_ErrClosed
  | CloseError int string
  | OtherError string

definition CloseNormalClosure :: int where "CloseNormalClosure = 1000"
definition CloseProtocolError :: int where "CloseProtocolError = 1002"
definition CloseNoStatusReceived :: int where "CloseNoStatusReceived = 1005"
definition CloseAbnormalClosure :: int where "CloseAbnormalClosure = 1006"

text \<open>
  The payloads a service hands over are \<open>interface{}\<close> values. The fragment below is
  enough to run \<open>json.Marshal\<close> on the cases the transport meets: \<open>nil\<close>, booleans,
  integers, byte slices, and a value of a type that \<open>json.Marshal\<close> rejects (a channel).
\<close>

datatype go_value = GoNil | GoBool bool | GoInt int | GoBytes string | GoChan

definition digit_char :: "nat \<Rightarrow> char" where
  "digit_char d = char_of (48 + d)"

function decimal :: "nat \<Rightarrow> string" where
  "decimal n = (if n < 10 then [digit_char n] else decimal (n div 10) @ [digit_char (n mod 10)])"
  by pat_completeness auto
termination
  by (relation "measure (\<lambda>n. n)") auto

declare decimal.simps [simp del]

definition base64_alphabet :: string where
  "base64_alphabet = ''ABCDEFGHIJKLMNOPQRSTUVWXYZabcdefghijklmnopqrstuvwxyz0123456789+/''"

definition b64 :: "nat \<Rightarrow> char" where
  "b64 i = base64_alphabet ! (i mod 64)"

text \<open>\<open>base64.StdEncoding\<close>: three bytes give four characters, the tail is padded with \<open>=\<close>.\<close>

fun base64_bytes :: "nat list \<Rightarrow> string" where
  "base64_bytes [] = []"
| "base64_bytes [a] = [b64 (a div 4), b64 ((a mod 4) * 16), CHR ''='', CHR ''='']"
| "base64_bytes [a, b] =
     [b64 (a div 4), b64 ((a mod 4) * 16 + b div 16), b64 ((b mod 16) * 4), CHR ''='']"
| "base64_bytes (a # b # c # rest) =
     [b64 (a div 4), b64 ((a mod 4) * 16 + b div 16), b64 ((b mod 16) * 4 + c div 64), b64 (c mod 64)]
     @ base64_bytes rest"

definition base64_StdEncoding :: "string \<Rightarrow> string" where
  "base64_StdEncoding bs = base64_bytes (map of_char bs)"

text \<open>
  \<open>json.Marshal\<close> of a \<open>[]byte\<close>: the standard library writes a byte slice as a JSON
  string holding its base64 text, never as the bytes themselves.
\<close>

definition json_Marshal_bytes :: "string \<Rightarrow> string" where
  "json_Marshal_bytes bs = [CHR 0x22] @ base64_StdEncoding bs @ [CHR 0x22]"

definition json_Marshal :: "go_value \<Rightarrow> error + string" where
  "json_Marshal v =
     (case v of
        GoNil \<Rightarrow> Inr ''null''
      | GoBool b \<Rightarrow> Inr (if b then ''true'' else ''false'')
      | GoInt i \<Rightarrow> Inr (if i < 0 then CHR ''-'' # decimal (nat (- i)) else decimal (nat i))
      | GoBytes bs \<Rightarrow> Inr (json_Marshal_bytes bs)
      | GoChan \<Rightarrow> Inl (OtherError ''json: unsupported type''))"

text \<open>\<open>gqlerror.Error\<close>, reduced to the field the transport sets.\<close>

record gqlerror =
  Message :: string

type_synonym object = "(string \<times> go_value) list"
type_synonym InitPayload = object

section \<open>Messages and the two exchangers\<close>

text \<open>
  Modelled from the spec: the declarations of \<open>messageType\<close> and \<open>message\<close> are not among
  the sources. The kinds are the twelve of section 3; a message has a payload, an id and
  a kind.
\<close>

datatype messageType =
    initMessageType
  | connectionAckMessageType
  | keepAliveMessageType
  | connectionErrorMessageType
  | connectionCloseMessageType
  | startMessageType
  | stopMessageType
  | dataMessageType
  | completeMessageType
  | errorMessageType
  | pingMessageType
  | pongMessageType

record message =
  payload :: string
  id_m :: string
  t_m :: messageType

definition graphqlwsSubprotocol :: string where
  "graphqlwsSubprotocol = ''graphql-ws''"

definition graphqltransportwsSubprotocol :: string where
  "graphqltransportwsSubprotocol = ''graphql-transport-ws''"

datatype messageExchanger = graphqlwsMessageExchanger | graphqltransportwsMessageExchanger

text \<open>
  Modelled from the spec: the exchangers' \<open>Send\<close> is not among the sources. Section 4.A
  gives each dialect its wire names: the legacy dialect has none for \<open>ping\<close> and \<open>pong\<close>,
  the modern one none for \<open>keep_alive\<close>, \<open>connection_error\<close>, \<open>connection_terminate\<close>,
  and writes a client's stop as \<open>complete\<close>. A message whose kind has no wire name in the
  dialect is not written.
\<close>

fun wireName :: "messageExchanger \<Rightarrow> messageType \<Rightarrow> string option" where
  "wireName graphqlwsMessageExchanger initMessageType = Some ''connection_init''"
| "wireName graphqlwsMessageExchanger connectionAckMessageType = Some ''connection_ack''"
| "wireName graphqlwsMessageExchanger keepAliveMessageType = Some ''ka''"
| "wireName graphqlwsMessageExchanger connectionErrorMessageType = Some ''connection_error''"
| "wireName graphqlwsMessageExchanger connectionCloseMessageType = Some ''connection_terminate''"
| "wireName graphqlwsMessageExchanger startMessageType = Some ''start''"
| "wireName graphqlwsMessageExchanger stopMessageType = Some ''stop''"
| "wireName graphqlwsMessageExchanger dataMessageType = Some ''data''"
| "wireName graphqlwsMessageExchanger completeMessageType = Some ''complete''"
| "wireName graphqlwsMessageExchanger errorMessageType = Some ''error''"
| "wireName graphqlwsMessageExchanger pingMessageType = None"
| "wireName graphqlwsMessageExchanger pongMessageType = None"
| "wireName graphqltransportwsMessageExchanger initMessageType = Some ''connection_init''"
| "wireName graphqltransportwsMessageExchanger connectionAckMessageType = Some ''connection_ack''"
| "wireName graphqltransportwsMessageExchanger keepAliveMessageType = None"
| "wireName graphqltransportwsMessageExchanger connectionErrorMessageType = None"
| "wireName graphqltransportwsMessageExchanger connectionCloseMessageType = None"
| "wireName graphqltransportwsMessageExchanger startMessageType = Some ''subscribe''"
| "wireName graphqltransportwsMessageExchanger stopMessageType = Some ''complete''"
| "wireName graphqltransportwsMessageExchanger dataMessageType = Some ''next''"
| "wireName graphqltransportwsMessageExchanger completeMessageType = Some ''complete''"
| "wireName graphqltransportwsMessageExchanger errorMessageType = Some ''error''"
| "wireName graphqltransportwsMessageExchanger pingMessageType = Some ''ping''"
| "wireName graphqltransportwsMessageExchanger pongMessageType = Some ''pong''"

text \<open>What reaches the socket: a frame written by an exchanger, or a close frame.\<close>

datatype wire = Frame message | CloseFrame int string

definition Send :: "messageExchanger \<Rightarrow> message \<Rightarrow> wire list" where
  "Send ex msg = (case wireName ex (t_m msg) of None \<Rightarrow> [] | Some _ \<Rightarrow> [Frame msg])"

text \<open>
  Modelled from the spec: \<open>handleNextReaderError\<close> is not among the sources (its test is).
  Section 4.B: a close error with code NormalClosure or NoStatusReceived becomes
  \<open>errWsConnClosed\<close>, every other error is returned as it is.
\<close>

definition handleNextReaderError :: "error \<Rightarrow> error" where
  "handleNextReaderError err =
     (case err of
        CloseError code txt \<Rightarrow>
          (if code = CloseNormalClosure \<or> code = CloseNoStatusReceived then errWsConnClosed else err)
      | _ \<Rightarrow> err)"

section \<open>Contexts and the subscription-error capture channel\<close>

text \<open>
  A \<open>context.Context\<close> as the transport uses it: the cancel handles of the context and
  of its ancestors (it is done once one of them has been invoked), the close reason, the
  init payload, and the address of the subscription-error struct when one is installed.
  The structs live in a heap, a list indexed by address. The connection numbers the
  cancel handles it creates from \<open>nextHandle\<close> on; the handles of a context that comes
  from outside belong to its owner.
\<close>

record Context =
  ctx_cancels :: "nat list"
  ctx_closeReason :: string
  ctx_initPayload :: "InitPayload option"
  ctx_subErr :: "nat option"

definition context_WithCancel :: "Context \<Rightarrow> nat \<Rightarrow> Context" where
  "context_WithCancel cx h = cx\<lparr>ctx_cancels := h # ctx_cancels cx\<rparr>"

definition ctx_Done :: "nat set \<Rightarrow> Context \<Rightarrow> bool" where
  "ctx_Done cancelled cx = (\<exists>h \<in> set (ctx_cancels cx). h \<in> cancelled)"

text \<open>Modelled from the spec: \<open>withInitPayload\<close> and \<open>closeReasonForContext\<close> are not among the sources (section 6).\<close>

definition withInitPayload :: "Context \<Rightarrow> InitPayload \<Rightarrow> Context" where
  "withInitPayload cx p = cx\<lparr>ctx_initPayload := Some p\<rparr>"

definition closeReasonForContext :: "Context \<Rightarrow> string" where
  "closeReasonForContext cx = ctx_closeReason cx"

type_synonym errheap = "gqlerror list list"

text \<open>
  Modelled from the spec: \<open>withSubscriptionErrorContext\<close>, \<open>AddSubscriptionError\<close> and
  \<open>getSubscriptionError\<close> are not among the sources (their tests are). Section 4.F:
  installing attaches a fresh, empty list; appending on a context without one is a no-op;
  collecting returns the list in insertion order, and the empty list on a context without
  one.
\<close>

definition withSubscriptionErrorContext :: "Context \<Rightarrow> errheap \<Rightarrow> Context \<times> errheap" where
  "withSubscriptionErrorContext cx hp = (cx\<lparr>ctx_subErr := Some (length hp)\<rparr>, hp @ [[]])"

definition AddSubscriptionError :: "Context \<Rightarrow> gqlerror \<Rightarrow> errheap \<Rightarrow> errheap" where
  "AddSubscriptionError cx e hp =
     (case ctx_subErr cx of
        None \<Rightarrow> hp
      | Some a \<Rightarrow> (if a < length hp then hp[a := hp ! a @ [e]] else hp))"

definition getSubscriptionError :: "Context \<Rightarrow> errheap \<Rightarrow> gqlerror list" where
  "getSubscriptionError cx hp =
     (case ctx_subErr cx of
        None \<Rightarrow> []
      | Some a \<Rightarrow> (if a < length hp then hp ! a else []))"

fun AddSubscriptionErrors :: "Context \<Rightarrow> gqlerror list \<Rightarrow> errheap \<Rightarrow> errheap" where
  "AddSubscriptionErrors cx [] hp = hp"
| "AddSubscriptionErrors cx (e # es) hp = AddSubscriptionErrors cx es (AddSubscriptionError cx e hp)"

definition context_Background :: Context where
  "context_Background = \<lparr>ctx_cancels = [], ctx_closeReason = [], ctx_initPayload = None, ctx_subErr = None\<rparr>"

section \<open>The connection\<close>

record startMessagePayload =
  OperationName :: string
  Query :: string
  Variables :: object

text \<open>
  Helpers of the package and of its libraries whose code is not among the sources; the
  transport is modelled for any behaviour of theirs. \<open>jsonDecodeStart\<close> and
  \<open>jsonDecodeInit\<close> are \<open>jsonDecode\<close> at its two call sites (\<open>None\<close> or \<open>Inl\<close>: it returns
  an error); \<open>json_Marshal_errors\<close> and \<open>json_Marshal_error\<close> are \<open>json.Marshal\<close> on a
  slice of errors and on one error; \<open>fmt_Sprintf\<close> gets its arguments already rendered.
\<close>

record helpers =
  jsonDecodeStart :: "string \<Rightarrow> startMessagePayload option"
  jsonDecodeInit :: "string \<Rightarrow> error + InitPayload option"
  json_Marshal_errors :: "gqlerror list \<Rightarrow> string"
  json_Marshal_error :: "gqlerror \<Rightarrow> string"
  toGQLError :: "error \<Rightarrow> gqlerror"
  error_Error :: "error \<Rightarrow> string"
  messageType_String :: "messageType \<Rightarrow> string"
  fmt_Sprintf :: "string \<Rightarrow> string list \<Rightarrow> string"

text \<open>
  The configuration. \<open>ErrorFunc\<close> records only whether the hook is set: the hook cannot
  reach the connection. The upgrader plays no part after the upgrade.
\<close>

record Websocket =
  InitFunc :: "(Context \<Rightarrow> InitPayload option \<Rightarrow> error + Context) option"
  InitTimeout :: Duration
  ErrorFunc :: bool
  KeepAlivePingInterval :: Duration
  PingPongInterval :: Duration

text \<open>
  The goroutine of one subscription: it is \<open>Streaming\<close> in its \<open>for\<close>/\<open>select\<close> loop,
  \<open>Draining\<close> once its deferred function has reached \<open>for range payloads\<close>, and
  \<open>Finished\<close> when that loop has seen the channel closed.
\<close>

datatype phase = Streaming | Draining | Finished

record task =
  task_id :: string
  task_ctx :: Context
  task_phase :: phase

text \<open>
  \<open>wsConnection\<close> with the state of what it owns. \<open>active\<close> is the registry, a map from an
  id to the handle of its cancel function, kept as an association list with one entry
  for each key. \<open>out\<close> is the sequence of frames handed to the socket, \<open>cancelled\<close>
  the cancel handles invoked so far, \<open>tasks\<close> the subscription goroutines by cancel
  handle, \<open>errs_heap\<close> the subscription-error structs, \<open>subscribed\<close> the calls made to
  the service's \<open>Subscribe\<close>, \<open>reported\<close> the calls made to \<open>ErrorFunc\<close>, \<open>runCtx\<close> the
  context and cancel handle that \<open>run\<close> creates, \<open>looping\<close> whether the read loop of
  \<open>run\<close> is running, \<open>closeWatcher\<close> whether \<open>closeOnCancel\<close> is still waiting.
\<close>

record wsConnection = Websocket +
  ctx :: Context
  subprotocol :: string
  me :: messageExchanger
  active :: "(string \<times> nat) list"
  keepAliveTicker :: bool
  pingPongTicker :: bool
  service :: "Context \<Rightarrow> string \<Rightarrow> string \<Rightarrow> object \<Rightarrow> error option"
  initPayload :: "InitPayload option"
  out :: "wire list"
  sockClosed :: bool
  readDeadline :: "Time option"
  cancelled :: "nat set"
  nextHandle :: nat
  tasks :: "nat \<rightharpoonup> task"
  errs_heap :: errheap
  subscribed :: "startMessagePayload list"
  reported :: "(error \<times> bool) list"
  runCtx :: "(Context \<times> nat) option"
  looping :: bool
  closeWatcher :: bool
  panicked :: bool

definition handlePossibleError :: "wsConnection \<Rightarrow> error option \<Rightarrow> bool \<Rightarrow> wsConnection" where
  "handlePossibleError c err isReadError =
     (case err of
        None \<Rightarrow> c
      | Some e \<Rightarrow> (if ErrorFunc c then c\<lparr>reported := reported c @ [(e, isReadError)]\<rparr> else c))"

text \<open>\<open>write\<close> (here \<open>write_m\<close>): the exchanger's \<open>Send\<close> under the mutex. A failing socket write is not modelled.\<close>

definition write_m :: "wsConnection \<Rightarrow> message \<Rightarrow> wsConnection" where
  "write_m c msg = c\<lparr>out := out c @ Send (me c) msg\<rparr>"

definition sendResponse :: "wsConnection \<Rightarrow> string \<Rightarrow> string \<Rightarrow> wsConnection" where
  "sendResponse c i response =
     write_m c \<lparr>payload = json_Marshal_bytes response, id_m = i, t_m = dataMessageType\<rparr>"

definition complete :: "wsConnection \<Rightarrow> string \<Rightarrow> wsConnection" where
  "complete c i = write_m c \<lparr>payload = [], id_m = i, t_m = completeMessageType\<rparr>"

definition sendError :: "helpers \<Rightarrow> wsConnection \<Rightarrow> string \<Rightarrow> gqlerror list \<Rightarrow> wsConnection" where
  "sendError H c i errors =
     write_m c \<lparr>payload = json_Marshal_errors H errors, id_m = i, t_m = errorMessageType\<rparr>"

definition sendConnectionError :: "helpers \<Rightarrow> wsConnection \<Rightarrow> string \<Rightarrow> string list \<Rightarrow> wsConnection" where
  "sendConnectionError H c format args =
     write_m c \<lparr>payload = json_Marshal_error H \<lparr>Message = fmt_Sprintf H format args\<rparr>,
              id_m = [], t_m = connectionErrorMessageType\<rparr>"

text \<open>\<open>close\<close>: the close frame, every cancel of the registry, then the socket.\<close>

definition close :: "wsConnection \<Rightarrow> int \<Rightarrow> string \<Rightarrow> wsConnection" where
  "close c closeCode txt =
     c\<lparr>out := out c @ [CloseFrame closeCode txt],
       cancelled := cancelled c \<union> snd ` set (active c),
       sockClosed := True\<rparr>"

subsection \<open>The init handshake\<close>

text \<open>
  What the first \<open>NextMessage\<close> does is given by the peer: \<open>None\<close> when it never returns,
  otherwise the time it takes, in nanoseconds from the call, and what it returns.
  \<open>nextMessageWithTimeout\<close> races it against \<open>time.After\<close>: the message wins when it is
  there before the timer fires, the timer wins when it fires first, and \<open>select\<close>
  chooses (\<open>pick\<close>) when both are ready.
\<close>

type_synonym arrival = "(int \<times> (error + message)) option"

definition NextMessage :: "arrival \<Rightarrow> (error + message) option" where
  "NextMessage a = map_option snd a"

definition nextMessageWithTimeout :: "Duration \<Rightarrow> arrival \<Rightarrow> bool \<Rightarrow> error + message" where
  "nextMessageWithTimeout timeout a pick =
     (let d = max 0 (sint timeout) in
      case a of
        None \<Rightarrow> Inl errReadTimeout
      | Some (at, r) \<Rightarrow>
          (if at < d then r
           else if at = d \<and> pick then r
           else Inl errReadTimeout))"

definition init_ack :: "wsConnection \<Rightarrow> bool \<times> wsConnection" where
  "init_ack c =
     (True, write_m (write_m c \<lparr>payload = [], id_m = [], t_m = connectionAckMessageType\<rparr>)
                  \<lparr>payload = [], id_m = [], t_m = keepAliveMessageType\<rparr>)"

definition init_accept :: "helpers \<Rightarrow> wsConnection \<Rightarrow> message \<Rightarrow> bool \<times> wsConnection" where
  "init_accept H c m =
     (case (if length (payload m) > 0 then jsonDecodeInit H (payload m) else Inr (initPayload c)) of
        Inl err \<Rightarrow> (False, c\<lparr>initPayload := Some []\<rparr>)
      | Inr ip \<Rightarrow>
          (let c1 = c\<lparr>initPayload := ip\<rparr> in
           case InitFunc c1 of
             None \<Rightarrow> init_ack c1
           | Some f \<Rightarrow>
               (case f (ctx c1) (initPayload c1) of
                  Inl err \<Rightarrow>
                    (False, close (sendConnectionError H c1 (error_Error H err) [])
                                  CloseNormalClosure ''terminated'')
                | Inr cx \<Rightarrow> init_ack (c1\<lparr>ctx := cx\<rparr>))))"

definition init :: "helpers \<Rightarrow> wsConnection \<Rightarrow> arrival \<Rightarrow> bool \<Rightarrow> (bool \<times> wsConnection) option" where
  "init H c a pick =
     (case (if InitTimeout c \<noteq> 0 then Some (nextMessageWithTimeout (InitTimeout c) a pick)
            else NextMessage a) of
        None \<Rightarrow> None
      | Some (Inl err) \<Rightarrow>
          (if err = errReadTimeout
           then Some (False, close c CloseProtocolError ''connection initialisation timeout'')
           else Some (False,
                  close (if err = errInvalidMsg then sendConnectionError H c ''invalid json'' [] else c)
                        CloseProtocolError ''decoding error''))
      | Some (Inr m) \<Rightarrow>
          (case t_m m of
             initMessageType \<Rightarrow> Some (init_accept H c m)
           | connectionCloseMessageType \<Rightarrow> Some (False, close c CloseNormalClosure ''terminated'')
           | _ \<Rightarrow>
               Some (False,
                 close (sendConnectionError H c ''unexpected message %s'' [messageType_String H (t_m m)])
                       CloseProtocolError ''unexpected message'')))"

subsection \<open>Entering \<open>run\<close>\<close>

text \<open>
  The part of \<open>run\<close> before its read loop: the context with cancel, the tickers of the
  dialect (\<open>time.NewTicker\<close> panics on an interval that is not positive), the first read
  deadline of the modern dialect, and the \<open>closeOnCancel\<close> watcher.
\<close>

definition run_enter :: "Time \<Rightarrow> wsConnection \<Rightarrow> wsConnection" where
  "run_enter now c =
     (let h = nextHandle c;
          c1 = c\<lparr>nextHandle := Suc h, runCtx := Some (context_WithCancel (ctx c) h, h)\<rparr>;
          c2 = (if (subprotocol c1 = [] \<or> subprotocol c1 = graphqlwsSubprotocol)
                   \<and> KeepAlivePingInterval c1 \<noteq> 0
                then (if sint (KeepAlivePingInterval c1) \<le> 0 then c1\<lparr>panicked := True\<rparr>
                      else c1\<lparr>keepAliveTicker := True\<rparr>)
                else c1);
          c3 = (if panicked c2 then c2
                else if subprotocol c2 = graphqltransportwsSubprotocol \<and> PingPongInterval c2 \<noteq> 0
                then (if sint (PingPongInterval c2) \<le> 0 then c2\<lparr>panicked := True\<rparr>
                      else c2\<lparr>pingPongTicker := True,
                             readDeadline := Some (time_Add now (2 * PingPongInterval c2))\<rparr>)
                else c2)
      in if panicked c3 then c3 else c3\<lparr>closeWatcher := True, looping := True\<rparr>)"

subsection \<open>Subscriptions\<close>

definition cancel :: "wsConnection \<Rightarrow> nat \<Rightarrow> wsConnection" where
  "cancel c h = c\<lparr>cancelled := insert h (cancelled c)\<rparr>"

text \<open>
  \<open>subscribe\<close>, up to and including the start of its goroutine, whose first statement
  installs the subscription-error context. The service gets the context as it is before
  the init payload and the error context are attached.
\<close>

definition subscribe :: "helpers \<Rightarrow> wsConnection \<Rightarrow> message \<Rightarrow> wsConnection" where
  "subscribe H c msg =
     (case jsonDecodeStart H (payload msg) of
        None \<Rightarrow> complete (sendError H c (id_m msg) [\<lparr>Message = ''invalid json''\<rparr>]) (id_m msg)
      | Some params \<Rightarrow>
          (let h = nextHandle c;
               cx = context_WithCancel (ctx c) h;
               c1 = c\<lparr>nextHandle := Suc h, subscribed := subscribed c @ [params]\<rparr>
           in case service c1 cx (Query params) (OperationName params) (Variables params) of
                Some err \<Rightarrow>
                  cancel (complete (sendError H c1 (id_m msg) [toGQLError H err]) (id_m msg)) h
              | None \<Rightarrow>
                  (let cx1 = (case initPayload c1 of None \<Rightarrow> cx | Some p \<Rightarrow> withInitPayload cx p);
                       c2 = c1\<lparr>active := AList.update (id_m msg) h (active c1)\<rparr>;
                       (cx2, hp) = withSubscriptionErrorContext cx1 (errs_heap c2)
                   in c2\<lparr>errs_heap := hp,
                         tasks := (tasks c2)(h \<mapsto> \<lparr>task_id = id_m msg, task_ctx = cx2,
                                                    task_phase = Streaming\<rparr>)\<rparr>)))"

text \<open>One payload received in the \<open>select\<close> of the goroutine.\<close>

definition task_payload :: "helpers \<Rightarrow> wsConnection \<Rightarrow> task \<Rightarrow> go_value \<Rightarrow> wsConnection" where
  "task_payload H c tk p =
     (case json_Marshal p of
        Inl err \<Rightarrow> sendError H c (task_id tk) [toGQLError H err]
      | Inr jsonPayload \<Rightarrow> sendResponse c (task_id tk) jsonPayload)"

text \<open>The deferred function of the goroutine, up to its \<open>cancel()\<close>.\<close>

definition task_terminal :: "helpers \<Rightarrow> wsConnection \<Rightarrow> nat \<Rightarrow> task \<Rightarrow> wsConnection" where
  "task_terminal H c h tk =
     (let errs = getSubscriptionError (task_ctx tk) (errs_heap c);
          c1 = (if length errs \<noteq> 0 then sendError H c (task_id tk) errs
                else complete c (task_id tk));
          c2 = c1\<lparr>active := AList.delete (task_id tk) (active c1)\<rparr>
      in cancel c2 h)"

definition set_phase :: "wsConnection \<Rightarrow> nat \<Rightarrow> task \<Rightarrow> phase \<Rightarrow> wsConnection" where
  "set_phase c h tk ph = c\<lparr>tasks := (tasks c)(h \<mapsto> tk\<lparr>task_phase := ph\<rparr>)\<rparr>"

subsection \<open>The read loop and the other goroutines, one step at a time\<close>

text \<open>
  The connection runs several goroutines. An event is one step of one of them, chosen by
  the peer, the service, the clock or the scheduler:
  \<^item> \<open>Inbound now m\<close>: \<open>NextMessage\<close> returns \<open>m\<close> to the read loop at instant \<open>now\<close>;
  \<^item> \<open>ReadError err\<close>: \<open>NextMessage\<close> returns an error to the read loop;
  \<^item> \<open>Payload h p\<close>: the goroutine with cancel handle \<open>h\<close> receives \<open>p\<close> from its channel;
  \<^item> \<open>ProducerClosed h\<close>: it finds its channel closed;
  \<^item> \<open>CtxDone h\<close>: its \<open>select\<close> takes \<open>ctx.Done()\<close>;
  \<^item> \<open>KeepAliveTick\<close>, \<open>PingTick\<close>: a ticker fires; \<open>KeepAliveStop\<close>, \<open>PingStop\<close>: the
    timer goroutine takes \<open>ctx.Done()\<close>;
  \<^item> \<open>ExternalCancel h\<close>: a cancel of the connection's own context is invoked;
  \<^item> \<open>CloseOnCancel\<close>: the watcher passes \<open>ctx.Done()\<close>;
  \<^item> \<open>AddError cx e\<close>: some code calls \<open>AddSubscriptionError(cx, e)\<close>.
  An event that cannot happen in a state gives \<open>None\<close>.
\<close>

datatype event =
    Inbound Time message
  | ReadError error
  | Payload nat go_value
  | ProducerClosed nat
  | CtxDone nat
  | KeepAliveTick
  | KeepAliveStop
  | PingTick
  | PingStop
  | ExternalCancel nat
  | CloseOnCancel
  | AddError Context gqlerror

text \<open>Leaving \<open>run\<close>: its deferred function.\<close>

definition run_exit :: "wsConnection \<Rightarrow> wsConnection" where
  "run_exit c =
     (let c1 = (case runCtx c of None \<Rightarrow> c | Some (cx, h) \<Rightarrow> cancel c h)
      in (close c1 CloseAbnormalClosure ''unexpected closure'')\<lparr>looping := False\<rparr>)"

text \<open>The body of the read loop for one message.\<close>

definition dispatch :: "helpers \<Rightarrow> wsConnection \<Rightarrow> Time \<Rightarrow> message \<Rightarrow> wsConnection" where
  "dispatch H c now m =
     (case t_m m of
        startMessageType \<Rightarrow> subscribe H c m
      | stopMessageType \<Rightarrow> (case map_of (active c) (id_m m) of None \<Rightarrow> c | Some closer \<Rightarrow> cancel c closer)
      | connectionCloseMessageType \<Rightarrow> run_exit (close c CloseNormalClosure ''terminated'')
      | pingMessageType \<Rightarrow> write_m c \<lparr>payload = payload m, id_m = [], t_m = pongMessageType\<rparr>
      | pongMessageType \<Rightarrow> c\<lparr>readDeadline := Some (time_Add now (2 * PingPongInterval c))\<rparr>
      | _ \<Rightarrow>
          run_exit (close (sendConnectionError H c ''unexpected message %s''
                             [messageType_String H (t_m m)])
                          CloseProtocolError ''unexpected message''))"

definition run_ctx_done :: "wsConnection \<Rightarrow> bool" where
  "run_ctx_done c = (case runCtx c of None \<Rightarrow> False | Some (cx, h) \<Rightarrow> ctx_Done (cancelled c) cx)"

definition step :: "helpers \<Rightarrow> wsConnection \<Rightarrow> event \<Rightarrow> wsConnection option" where
  "step H c ev =
     (if panicked c then None
      else case ev of
        Inbound now m \<Rightarrow> (if looping c then Some (dispatch H c now m) else None)
      | ReadError err \<Rightarrow>
          (if looping c
           then Some (run_exit (if err \<noteq> net_ErrClosed then handlePossibleError c (Some err) True else c))
           else None)
      | Payload h p \<Rightarrow>
          (case tasks c h of
             None \<Rightarrow> None
           | Some tk \<Rightarrow>
               (case task_phase tk of
                  Streaming \<Rightarrow> Some (task_payload H c tk p)
                | Draining \<Rightarrow> Some c
                | Finished \<Rightarrow> None))
      | ProducerClosed h \<Rightarrow>
          (case tasks c h of
             None \<Rightarrow> None
           | Some tk \<Rightarrow>
               (case task_phase tk of
                  Streaming \<Rightarrow> Some (set_phase (task_terminal H c h tk) h tk Finished)
                | Draining \<Rightarrow> Some (set_phase c h tk Finished)
                | Finished \<Rightarrow> None))
      | CtxDone h \<Rightarrow>
          (case tasks c h of
             None \<Rightarrow> None
           | Some tk \<Rightarrow>
               (if task_phase tk = Streaming \<and> ctx_Done (cancelled c) (task_ctx tk)
                then Some (set_phase (task_terminal H c h tk) h tk Draining)
                else None))
      | KeepAliveTick \<Rightarrow>
          (if keepAliveTicker c
           then Some (write_m c \<lparr>payload = [], id_m = [], t_m = keepAliveMessageType\<rparr>)
           else None)
      | KeepAliveStop \<Rightarrow>
          (if keepAliveTicker c \<and> run_ctx_done c then Some (c\<lparr>keepAliveTicker := False\<rparr>) else None)
      | PingTick \<Rightarrow>
          (if pingPongTicker c
           then Some (write_m c \<lparr>payload = [], id_m = [], t_m = pingMessageType\<rparr>)
           else None)
      | PingStop \<Rightarrow>
          (if pingPongTicker c \<and> run_ctx_done c then Some (c\<lparr>pingPongTicker := False\<rparr>) else None)
      | ExternalCancel h \<Rightarrow>
          (if h \<in> set (ctx_cancels (ctx c)) then Some (cancel c h) else None)
      | CloseOnCancel \<Rightarrow>
          (if closeWatcher c \<and> run_ctx_done c
           then (case runCtx c of
                   None \<Rightarrow> None
                 | Some (cx, h) \<Rightarrow>
                     (let r = closeReasonForContext cx;
                          c1 = (if r \<noteq> [] then sendConnectionError H c r [] else c)
                      in Some ((close c1 CloseNormalClosure ''terminated'')\<lparr>closeWatcher := False\<rparr>)))
           else None)
      | AddError cx e \<Rightarrow> Some (c\<lparr>errs_heap := AddSubscriptionError cx e (errs_heap c)\<rparr>))"

fun exec :: "helpers \<Rightarrow> wsConnection \<Rightarrow> event list \<Rightarrow> wsConnection option" where
  "exec H c [] = Some c"
| "exec H c (ev # evs) = (case step H c ev of None \<Rightarrow> None | Some c' \<Rightarrow> exec H c' evs)"

subsection \<open>\<open>Do\<close>, after the upgrade\<close>

definition selectExchanger :: "string \<Rightarrow> messageExchanger option" where
  "selectExchanger sp =
     (if sp = graphqlwsSubprotocol \<or> sp = [] then Some graphqlwsMessageExchanger
      else if sp = graphqltransportwsSubprotocol then Some graphqltransportwsMessageExchanger
      else None)"

definition newConnection ::
  "Websocket \<Rightarrow> (Context \<Rightarrow> string \<Rightarrow> string \<Rightarrow> object \<Rightarrow> error option) \<Rightarrow> Context \<Rightarrow> string
     \<Rightarrow> messageExchanger \<Rightarrow> wsConnection" where
  "newConnection t svc rctx sp ex =
     \<lparr>InitFunc = InitFunc t, InitTimeout = InitTimeout t, ErrorFunc = ErrorFunc t,
      KeepAlivePingInterval = KeepAlivePingInterval t, PingPongInterval = PingPongInterval t,
      ctx = rctx, subprotocol = sp, me = ex, active = [],
      keepAliveTicker = False, pingPongTicker = False, service = svc, initPayload = None,
      out = [], sockClosed = False, readDeadline = None, cancelled = {},
      nextHandle = Suc (fold max (ctx_cancels rctx) 0), tasks = Map.empty, errs_heap = [],
      subscribed = [], reported = [], runCtx = None, looping = False, closeWatcher = False,
      panicked = False\<rparr>"

text \<open>
  \<open>Do\<close> from the negotiated subprotocol on. The result is the frames written when the
  subprotocol is refused, and otherwise the connection as \<open>init\<close> leaves it when it
  fails, or as it stands on entry to the read loop; \<open>None\<close> when \<open>init\<close> never returns.
\<close>

definition Do ::
  "helpers \<Rightarrow> Websocket \<Rightarrow> (Context \<Rightarrow> string \<Rightarrow> string \<Rightarrow> object \<Rightarrow> error option) \<Rightarrow> Context
     \<Rightarrow> string \<Rightarrow> arrival \<Rightarrow> bool \<Rightarrow> Time \<Rightarrow> (wire list + wsConnection) option" where
  "Do H t svc rctx sp a pick now =
     (case selectExchanger sp of
        None \<Rightarrow>
          Some (Inl [CloseFrame CloseProtocolError
                       (fmt_Sprintf H ''unsupported negotiated subprotocol %s'' [sp])])
      | Some ex \<Rightarrow>
          (case init H (newConnection t svc rctx sp ex) a pick of
             None \<Rightarrow> None
           | Some (ok, c) \<Rightarrow> Some (Inr (if ok then run_enter now c else c))))"

section \<open>A sample connection\<close>

text \<open>
  Concrete helpers, configuration and peers on which the theorems below are run: a
  decoder that accepts the payloads that open with a brace, a service that accepts every
  subscription, no init hook, no timeout and no timers.
\<close>

definition sample_helpers :: helpers where
  "sample_helpers =
     \<lparr>jsonDecodeStart =
        (\<lambda>s. if s \<noteq> [] \<and> hd s = CHR ''{''
             then Some \<lparr>OperationName = [], Query = ''subscription{tick}'', Variables = []\<rparr>
             else None),
      jsonDecodeInit = (\<lambda>s. Inr (Some [])),
      json_Marshal_errors = (\<lambda>es. concat (map Message es)),
      json_Marshal_error = Message,
      toGQLError = (\<lambda>e. \<lparr>Message = ''error''\<rparr>),
      error_Error = (\<lambda>e. ''error''),
      messageType_String = (\<lambda>k. ''kind''),
      fmt_Sprintf = (\<lambda>f args. f @ concat args)\<rparr>"

definition sample_config :: Websocket where
  "sample_config =
     \<lparr>InitFunc = None, InitTimeout = 0, ErrorFunc = False,
      KeepAlivePingInterval = 0, PingPongInterval = 0\<rparr>"

definition sample_service :: "Context \<Rightarrow> string \<Rightarrow> string \<Rightarrow> object \<Rightarrow> error option" where
  "sample_service cx q opn vars = None"

definition sample_request_ctx :: Context where
  "sample_request_ctx = context_Background\<lparr>ctx_cancels := [0]\<rparr>"

definition sample_init :: message where
  "sample_init = \<lparr>payload = [], id_m = [], t_m = initMessageType\<rparr>"

text \<open>A legacy connection on entry to its read loop, after \<open>connection_init\<close> was accepted.\<close>

definition sample_ready :: wsConnection where
  "sample_ready =
     run_enter 0 (snd (init_ack (newConnection sample_config sample_service sample_request_ctx
                                   graphqlwsSubprotocol graphqlwsMessageExchanger)))"

text \<open>
  A \<open>start\<close> with id 1 that the sample decoder accepts, the connection after the read loop
  has handled it (its goroutine has cancel handle 2), the goroutine and its context, and
  the connection after an error has been deposited on that context and the client has
  sent \<open>stop\<close>.
\<close>

definition sample_start :: message where
  "sample_start = \<lparr>payload = ''{}'', id_m = ''1'', t_m = startMessageType\<rparr>"

definition sample_task_ctx :: Context where
  "sample_task_ctx =
     \<lparr>ctx_cancels = [2, 0], ctx_closeReason = [], ctx_initPayload = None, ctx_subErr = Some 0\<rparr>"

definition sample_task :: task where
  "sample_task = \<lparr>task_id = ''1'', task_ctx = sample_task_ctx, task_phase = Streaming\<rparr>"

definition sample_streaming :: wsConnection where
  "sample_streaming = subscribe sample_helpers sample_ready sample_start"

definition sample_stopped :: wsConnection where
  "sample_stopped =
     cancel (sample_streaming\<lparr>errs_heap := [[\<lparr>Message = ''late error''\<rparr>]]\<rparr>) 2"

section \<open>Observations on a connection\<close>

text \<open>
  The ids in the registry, and the ids of the subscriptions whose goroutine has not
  reached its terminal step (cancel handles are allocated below \<open>nextHandle\<close>).
\<close>

definition registry_ids :: "wsConnection \<Rightarrow> string set" where
  "registry_ids c = fst ` set (active c)"

definition live_ids :: "wsConnection \<Rightarrow> string set" where
  "live_ids c =
     set (map task_id (filter (\<lambda>tk. task_phase tk = Streaming)
                              (List.map_filter (tasks c) [0..<nextHandle c])))"

definition data_frame :: "string \<Rightarrow> string \<Rightarrow> wire" where
  "data_frame i p = Frame \<lparr>payload = p, id_m = i, t_m = dataMessageType\<rparr>"

text \<open>The kinds of the frames in a sequence of writes, close frames left out.\<close>

definition kinds :: "wire list \<Rightarrow> messageType list" where
  "kinds ws = concat (map (\<lambda>w. case w of Frame m \<Rightarrow> [t_m m] | CloseFrame k r \<Rightarrow> []) ws)"

text \<open>
  \<open>extends c c'\<close>: the connection \<open>c'\<close> has the exchanger of \<open>c\<close>, and its output is
  that of \<open>c\<close> followed by frames none of which is a \<open>connection_ack\<close> and, on the modern
  dialect, none of which is a \<open>keep_alive\<close>.
\<close>

definition extends :: "wsConnection \<Rightarrow> wsConnection \<Rightarrow> bool" where
  "extends c c' =
     (me c' = me c
      \<and> (\<exists>fs. out c' = out c @ fs
             \<and> connectionAckMessageType \<notin> set (kinds fs)
             \<and> (me c = graphqltransportwsMessageExchanger \<longrightarrow> keepAliveMessageType \<notin> set (kinds fs))))"

text \<open>A modern connection with a ping interval of 100 ms, as \<open>init\<close> leaves it.\<close>

definition sample_modern_config :: Websocket where
  "sample_modern_config = sample_config\<lparr>PingPongInterval := 100000000\<rparr>"

definition sample_modern_acked :: wsConnection where
  "sample_modern_acked =
     snd (init_ack (newConnection sample_modern_config sample_service sample_request_ctx
                      graphqltransportwsSubprotocol graphqltransportwsMessageExchanger))"









section \<open>Close error normalisation\<close>

text \<open>
  C5. \<open>handleNextReaderError\<close> turns a close error with code NormalClosure or
  NoStatusReceived into \<open>errWsConnClosed\<close>, returns a close error with any other code
  unchanged, and returns every error that is not a close error unchanged.
\<close>

theorem handleNextReaderError_normalisation:
  "(code = CloseNormalClosure \<or> code = CloseNoStatusReceived \<longrightarrow>
      handleNextReaderError (CloseError code txt) = errWsConnClosed)
   \<and> (code \<noteq> CloseNormalClosure \<and> code \<noteq> CloseNoStatusReceived \<longrightarrow>
      handleNextReaderError (CloseError code txt) = CloseError code txt)
   \<and> ((\<forall>k s. err \<noteq> CloseError k s) \<longrightarrow> handleNextReaderError err = err)"
  by (cases err) (simp_all add: handleNextReaderError_def)

theorem handleNextReaderError_normalisation_witness:
  "handleNextReaderError (CloseError 1000 []) = errWsConnClosed
   \<and> handleNextReaderError (CloseError 1005 []) = errWsConnClosed
   \<and> handleNextReaderError (CloseError 1006 []) = CloseError 1006 []
   \<and> handleNextReaderError (OtherError ''some other error'') = OtherError ''some other error''"
  using handleNextReaderError_normalisation [of 1000 "[]" "OtherError ''some other error''"]
        handleNextReaderError_normalisation [of 1005 "[]" errReadTimeout]
        handleNextReaderError_normalisation [of 1006 "[]" errReadTimeout]
  by (simp add: CloseNormalClosure_def CloseNoStatusReceived_def)

section \<open>The subscription-error capture channel\<close>

lemma AddSubscriptionErrors_installed:
  "ctx_subErr cx = Some a \<Longrightarrow> a < length hp \<Longrightarrow>
     length (AddSubscriptionErrors cx es hp) = length hp
     \<and> getSubscriptionError cx (AddSubscriptionErrors cx es hp) = getSubscriptionError cx hp @ es"
proof (induction es arbitrary: hp)
  case Nil
  then show ?case by simp
next
  case (Cons e es)
  let ?hp = "AddSubscriptionError cx e hp"
  from Cons.prems have len: "length ?hp = length hp"
    by (simp add: AddSubscriptionError_def)
  from Cons.prems have one: "getSubscriptionError cx ?hp = getSubscriptionError cx hp @ [e]"
    by (simp add: AddSubscriptionError_def getSubscriptionError_def)
  from Cons.IH [of ?hp] Cons.prems len one show ?case by simp
qed

text \<open>
  C9. Appending on a context without the channel leaves the heap as it is, and
  collecting there gives the empty list; on a context where the channel has just been
  installed, collecting after a sequence of appends gives exactly the appended errors, in
  the order of the appends.
\<close>

theorem subscription_error_channel:
  "(ctx_subErr cx = None \<longrightarrow>
      AddSubscriptionError cx e hp = hp \<and> getSubscriptionError cx hp = [])
   \<and> (withSubscriptionErrorContext cx hp = (cx', hp') \<longrightarrow>
      getSubscriptionError cx' (AddSubscriptionErrors cx' es hp') = es)"
proof -
  have none: "ctx_subErr cx = None \<longrightarrow>
      AddSubscriptionError cx e hp = hp \<and> getSubscriptionError cx hp = []"
    by (simp add: AddSubscriptionError_def getSubscriptionError_def)
  have inst: "getSubscriptionError cx' (AddSubscriptionErrors cx' es hp') = es"
    if w: "withSubscriptionErrorContext cx hp = (cx', hp')"
  proof -
    from w have a: "ctx_subErr cx' = Some (length hp)" and l: "length hp < length hp'"
      and e: "getSubscriptionError cx' hp' = []"
      by (auto simp: withSubscriptionErrorContext_def getSubscriptionError_def)
    from AddSubscriptionErrors_installed [OF a l, of es] e show ?thesis by simp
  qed
  from none inst show ?thesis by blast
qed

theorem subscription_error_channel_witness:
  "AddSubscriptionError context_Background \<lparr>Message = ''First error''\<rparr> [] = []
   \<and> getSubscriptionError context_Background [] = []
   \<and> getSubscriptionError (fst (withSubscriptionErrorContext context_Background []))
        (AddSubscriptionErrors (fst (withSubscriptionErrorContext context_Background []))
           [\<lparr>Message = ''First error''\<rparr>, \<lparr>Message = ''Second error''\<rparr>]
           (snd (withSubscriptionErrorContext context_Background [])))
      = [\<lparr>Message = ''First error''\<rparr>, \<lparr>Message = ''Second error''\<rparr>]"
  using subscription_error_channel [of context_Background "\<lparr>Message = ''First error''\<rparr>" "[]"
          "fst (withSubscriptionErrorContext context_Background [])"
          "snd (withSubscriptionErrorContext context_Background [])"
          "[\<lparr>Message = ''First error''\<rparr>, \<lparr>Message = ''Second error''\<rparr>]"]
  by (simp add: context_Background_def)

section \<open>Pong and the read deadline\<close>

lemma sint_double:
  "- (2 ^ 62) \<le> sint (d :: 64 word) \<Longrightarrow> sint d < 2 ^ 62 \<Longrightarrow> sint (2 * d) = 2 * sint d"
  by (simp add: sint_word_ariths signed_take_bit_int_eq_self)

text \<open>
  C10. While the read loop runs, an inbound \<open>pong\<close> sets the read deadline to the instant
  of its arrival plus \<open>2 * PingPongInterval\<close>, whatever the dialect and the interval: with
  interval 0 the deadline is the instant itself, and as long as the doubling does not
  overflow the 64-bit duration the deadline is the exact sum.
\<close>

theorem pong_sets_read_deadline:
  "\<not> panicked c \<and> looping c \<and> t_m m = pongMessageType \<longrightarrow>
     step H c (Inbound now m) = Some (c\<lparr>readDeadline := Some (time_Add now (2 * PingPongInterval c))\<rparr>)
     \<and> (PingPongInterval c = 0 \<longrightarrow> step H c (Inbound now m) = Some (c\<lparr>readDeadline := Some now\<rparr>))
     \<and> (- (2 ^ 62) \<le> sint (PingPongInterval c) \<and> sint (PingPongInterval c) < 2 ^ 62 \<longrightarrow>
          step H c (Inbound now m) = Some (c\<lparr>readDeadline := Some (now + 2 * sint (PingPongInterval c))\<rparr>))"
  by (simp add: step_def dispatch_def time_Add_def sint_double)

theorem pong_sets_read_deadline_witness:
  "step sample_helpers sample_ready (Inbound 7 \<lparr>payload = [], id_m = [], t_m = pongMessageType\<rparr>)
     = Some (sample_ready\<lparr>readDeadline := Some 7\<rparr>)"
proof -
  let ?m = "\<lparr>payload = [], id_m = [], t_m = pongMessageType\<rparr>"
  have pre: "\<not> panicked sample_ready \<and> looping sample_ready \<and> t_m ?m = pongMessageType"
    by (simp add: sample_ready_def run_enter_def init_ack_def write_m_def newConnection_def
        sample_config_def Let_def)
  have zero: "PingPongInterval sample_ready = 0"
    by (simp add: sample_ready_def run_enter_def init_ack_def write_m_def newConnection_def
        sample_config_def Let_def)
  from pong_sets_read_deadline [of sample_ready ?m sample_helpers 7] pre zero
  show ?thesis by blast
qed

section \<open>Facts about the sample connection\<close>

lemmas sample_defs =
  sample_ready_def run_enter_def init_ack_def write_m_def newConnection_def sample_config_def
  sample_helpers_def sample_service_def sample_request_ctx_def context_Background_def
  sample_start_def sample_streaming_def sample_task_def sample_task_ctx_def sample_stopped_def
  graphqlwsSubprotocol_def graphqltransportwsSubprotocol_def

lemma sample_streaming_task:
  "\<not> panicked sample_streaming" "tasks sample_streaming 2 = Some sample_task"
  "out sample_streaming = out sample_ready" "active sample_streaming = [(''1'', 2)]"
  "errs_heap sample_streaming = [[]]" "looping sample_streaming"
  by (simp_all add: sample_defs subscribe_def Let_def context_WithCancel_def
      withSubscriptionErrorContext_def)

lemma sample_stopped_reached:
  "exec sample_helpers sample_ready
     [Inbound 0 sample_start, AddError sample_task_ctx \<lparr>Message = ''late error''\<rparr>,
      Inbound 1 \<lparr>payload = [], id_m = ''1'', t_m = stopMessageType\<rparr>] = Some sample_stopped"
proof -
  have 1: "step sample_helpers sample_ready (Inbound 0 sample_start) = Some sample_streaming"
    by (simp add: step_def dispatch_def sample_streaming_def)
       (simp add: sample_defs Let_def)
  have 2: "step sample_helpers sample_streaming (AddError sample_task_ctx \<lparr>Message = ''late error''\<rparr>)
           = Some (sample_streaming\<lparr>errs_heap := [[\<lparr>Message = ''late error''\<rparr>]]\<rparr>)"
    by (simp add: step_def sample_streaming_task AddSubscriptionError_def sample_task_ctx_def)
  have 3: "step sample_helpers (sample_streaming\<lparr>errs_heap := [[\<lparr>Message = ''late error''\<rparr>]]\<rparr>)
             (Inbound 1 \<lparr>payload = [], id_m = ''1'', t_m = stopMessageType\<rparr>) = Some sample_stopped"
    by (simp add: step_def dispatch_def sample_streaming_task sample_stopped_def)
  show ?thesis by (simp add: 1 2 3)
qed

section \<open>A start whose payload does not decode\<close>

lemma Send_subscription_kinds:
  "t_m msg = errorMessageType \<or> t_m msg = completeMessageType \<or> t_m msg = dataMessageType
     \<Longrightarrow> Send ex msg = [Frame msg]"
  by (cases ex) (auto simp: Send_def)

text \<open>
  C6. While the read loop runs, a \<open>start\<close> whose payload \<open>jsonDecode\<close> rejects makes the
  server emit an \<open>error\<close> frame for the id, carrying the single error "invalid json", and
  then a \<open>complete\<close> frame for the id; \<open>Subscribe\<close> is not called, the registry is left as
  it is, and no goroutine is started.
\<close>

theorem start_invalid_json:
  "\<not> panicked c \<and> looping c \<and> t_m m = startMessageType \<and> jsonDecodeStart H (payload m) = None \<longrightarrow>
     (\<exists>c'. step H c (Inbound now m) = Some c'
        \<and> out c' = out c @
             [Frame \<lparr>payload = json_Marshal_errors H [\<lparr>Message = ''invalid json''\<rparr>],
                     id_m = id_m m, t_m = errorMessageType\<rparr>,
              Frame \<lparr>payload = [], id_m = id_m m, t_m = completeMessageType\<rparr>]
        \<and> subscribed c' = subscribed c
        \<and> active c' = active c
        \<and> tasks c' = tasks c)"
  by (simp add: step_def dispatch_def subscribe_def complete_def sendError_def write_m_def
      Send_subscription_kinds)

theorem start_invalid_json_witness:
  "\<exists>c'. step sample_helpers sample_ready
           (Inbound 0 \<lparr>payload = ''not json'', id_m = ''1'', t_m = startMessageType\<rparr>) = Some c'
        \<and> out c' = out sample_ready @
             [Frame \<lparr>payload = ''invalid json'', id_m = ''1'', t_m = errorMessageType\<rparr>,
              Frame \<lparr>payload = [], id_m = ''1'', t_m = completeMessageType\<rparr>]
        \<and> subscribed c' = subscribed sample_ready
        \<and> active c' = active sample_ready
        \<and> tasks c' = tasks sample_ready"
proof -
  let ?m = "\<lparr>payload = ''not json'', id_m = ''1'', t_m = startMessageType\<rparr>"
  have pre: "\<not> panicked sample_ready \<and> looping sample_ready \<and> t_m ?m = startMessageType
               \<and> jsonDecodeStart sample_helpers (payload ?m) = None"
    by (simp add: sample_ready_def run_enter_def init_ack_def write_m_def newConnection_def
        sample_config_def sample_helpers_def Let_def)
  have "json_Marshal_errors sample_helpers [\<lparr>Message = ''invalid json''\<rparr>] = ''invalid json''"
    by (simp add: sample_helpers_def)
  with start_invalid_json [of sample_ready ?m sample_helpers 0] pre
  show ?thesis by simp
qed

section \<open>The terminal step of a subscription goroutine\<close>





section \<open>The init timeout\<close>

lemma step_keeps_loop_left: "step H c ev = Some c' \<Longrightarrow> \<not> looping c \<Longrightarrow> \<not> looping c'"
  by (cases ev)
     (auto simp: step_def task_payload_def task_terminal_def set_phase_def sendError_def
        sendResponse_def complete_def write_m_def cancel_def close_def sendConnectionError_def
        Let_def split: option.splits phase.splits sum.splits if_splits prod.splits)

lemma exec_keeps_loop_left: "exec H c evs = Some c' \<Longrightarrow> \<not> looping c \<Longrightarrow> \<not> looping c'"
proof (induction evs arbitrary: c)
  case Nil
  then show ?case by simp
next
  case (Cons ev evs)
  then show ?case
    by (auto split: option.splits dest: step_keeps_loop_left)
qed

lemma nextMessageWithTimeout_late:
  "a = None \<or> (\<exists>at r. a = Some (at, r) \<and> max 0 (sint timeout) < at)
     \<Longrightarrow> nextMessageWithTimeout timeout a pick = Inl errReadTimeout"
  by (auto simp: nextMessageWithTimeout_def Let_def)

text \<open>
  C8. With a non-zero \<open>InitTimeout\<close>, when the first message never arrives or arrives
  after the timeout, \<open>Do\<close> writes the close frame with code ProtocolError and reason
  "connection initialisation timeout" and nothing else, closes the socket and never
  enters the read loop. With \<open>InitTimeout\<close> zero there is no timer: \<open>Do\<close> waits for the
  first message however long it takes, with the same outcome whenever it arrives, and
  does not return while none arrives.
\<close>

theorem init_timeout:
  "(InitTimeout t \<noteq> 0 \<and> selectExchanger sp = Some ex
      \<and> (a = None \<or> (\<exists>at r. a = Some (at, r) \<and> max 0 (sint (InitTimeout t)) < at)) \<longrightarrow>
      (\<exists>c. Do H t svc rctx sp a pick now = Some (Inr c)
         \<and> out c = [CloseFrame CloseProtocolError ''connection initialisation timeout'']
         \<and> sockClosed c \<and> \<not> looping c
         \<and> (\<forall>evs c'. exec H c evs = Some c' \<longrightarrow> \<not> looping c')))
   \<and> (InitTimeout t = 0 \<and> selectExchanger sp = Some ex \<longrightarrow>
        Do H t svc rctx sp None pick now = None
        \<and> (\<forall>at at' r. Do H t svc rctx sp (Some (at, r)) pick now
                       = Do H t svc rctx sp (Some (at', r)) pick now))"
proof (intro conjI impI)
  assume pre: "InitTimeout t \<noteq> 0 \<and> selectExchanger sp = Some ex
      \<and> (a = None \<or> (\<exists>at r. a = Some (at, r) \<and> max 0 (sint (InitTimeout t)) < at))"
  let ?new = "newConnection t svc rctx sp ex"
  let ?c = "close ?new CloseProtocolError ''connection initialisation timeout''"
  from pre have nm: "nextMessageWithTimeout (InitTimeout t) a pick = Inl errReadTimeout"
    by (intro nextMessageWithTimeout_late) blast
  have it: "InitTimeout ?new = InitTimeout t" by (simp add: newConnection_def)
  from pre nm it have d: "Do H t svc rctx sp a pick now = Some (Inr ?c)"
    by (simp add: Do_def init_def)
  have o: "out ?c = [CloseFrame CloseProtocolError ''connection initialisation timeout'']"
    and s: "sockClosed ?c" and l: "\<not> looping ?c"
    by (simp_all add: close_def newConnection_def)
  from l have "\<forall>evs c'. exec H ?c evs = Some c' \<longrightarrow> \<not> looping c'"
    by (blast dest: exec_keeps_loop_left)
  with d o s l
  show "\<exists>c. Do H t svc rctx sp a pick now = Some (Inr c)
         \<and> out c = [CloseFrame CloseProtocolError ''connection initialisation timeout'']
         \<and> sockClosed c \<and> \<not> looping c
         \<and> (\<forall>evs c'. exec H c evs = Some c' \<longrightarrow> \<not> looping c')"
    by blast
next
  assume pre: "InitTimeout t = 0 \<and> selectExchanger sp = Some ex"
  then show "Do H t svc rctx sp None pick now = None"
    by (simp add: Do_def init_def NextMessage_def newConnection_def)
  from pre show "\<forall>at at' r. Do H t svc rctx sp (Some (at, r)) pick now
                       = Do H t svc rctx sp (Some (at', r)) pick now"
    by (simp add: Do_def init_def NextMessage_def newConnection_def)
qed

theorem init_timeout_witness:
  "(\<exists>c. Do sample_helpers (sample_config\<lparr>InitTimeout := 50000000\<rparr>) sample_service
           sample_request_ctx ''graphql-ws'' None False 0 = Some (Inr c)
         \<and> out c = [CloseFrame 1002 ''connection initialisation timeout'']
         \<and> sockClosed c \<and> \<not> looping c)
   \<and> Do sample_helpers sample_config sample_service sample_request_ctx ''graphql-ws'' None False 0
       = None"
proof -
  have s: "selectExchanger ''graphql-ws'' = Some graphqlwsMessageExchanger"
    by (simp add: selectExchanger_def graphqlwsSubprotocol_def)
  have 1: "InitTimeout (sample_config\<lparr>InitTimeout := 50000000\<rparr>) \<noteq> 0
      \<and> selectExchanger ''graphql-ws'' = Some graphqlwsMessageExchanger
      \<and> ((None :: arrival) = None
          \<or> (\<exists>at r. (None :: arrival) = Some (at, r)
                \<and> max 0 (sint (InitTimeout (sample_config\<lparr>InitTimeout := 50000000\<rparr>))) < at))"
    using s by simp
  have 2: "InitTimeout sample_config = 0 \<and> selectExchanger ''graphql-ws'' = Some graphqlwsMessageExchanger"
    using s by (simp add: sample_config_def)
  from init_timeout [of "sample_config\<lparr>InitTimeout := 50000000\<rparr>" "''graphql-ws''"
      graphqlwsMessageExchanger None sample_helpers sample_service sample_request_ctx False 0] 1
  have a: "\<exists>c. Do sample_helpers (sample_config\<lparr>InitTimeout := 50000000\<rparr>) sample_service
           sample_request_ctx ''graphql-ws'' None False 0 = Some (Inr c)
         \<and> out c = [CloseFrame 1002 ''connection initialisation timeout'']
         \<and> sockClosed c \<and> \<not> looping c"
    unfolding CloseProtocolError_def by blast
  from init_timeout [of sample_config "''graphql-ws''" graphqlwsMessageExchanger None
      sample_helpers sample_service sample_request_ctx False 0] 2
  have b: "Do sample_helpers sample_config sample_service sample_request_ctx ''graphql-ws'' None False 0
       = None"
    by blast
  from a b show ?thesis by blast
qed

section \<open>One subscription on a legacy connection\<close>

lemma sample_connection_ready:
  "Do sample_helpers sample_config sample_service sample_request_ctx ''graphql-ws''
       (Some (0, Inr sample_init)) False 0 = Some (Inr sample_ready)"
  by (simp add: Do_def selectExchanger_def graphqlwsSubprotocol_def init_def NextMessage_def
      newConnection_def sample_config_def sample_init_def init_accept_def sample_ready_def
      init_ack_def)

lemma sample_single_subscription:
  "map_option out (exec sample_helpers sample_ready
          [Inbound 0 sample_start, Payload 2 (GoInt 1), Payload 2 (GoInt 2), Payload 2 (GoInt 3),
           ProducerClosed 2])
     = Some [Frame \<lparr>payload = [], id_m = [], t_m = connectionAckMessageType\<rparr>,
             Frame \<lparr>payload = [], id_m = [], t_m = keepAliveMessageType\<rparr>,
             data_frame ''1'' (CHR 0x22 # ''MQ=='' @ [CHR 0x22]),
             data_frame ''1'' (CHR 0x22 # ''Mg=='' @ [CHR 0x22]),
             data_frame ''1'' (CHR 0x22 # ''Mw=='' @ [CHR 0x22]),
             Frame \<lparr>payload = [], id_m = ''1'', t_m = completeMessageType\<rparr>]"
  by code_simp

lemma sample_payload_encodings:
  "map json_Marshal [GoInt 1, GoInt 2, GoInt 3] = [Inr ''1'', Inr ''2'', Inr ''3'']"
  by code_simp

text \<open>
  C1. On the legacy sample connection, after the init handshake, the client sends
  \<open>start\<close> with id 1 and the service emits 1, 2, 3 and closes its channel. The server
  writes three \<open>data\<close> frames with id 1 and then one \<open>complete\<close> with id 1, but the
  payloads of the data frames are not the JSON encodings \<open>1\<close>, \<open>2\<close>, \<open>3\<close>: \<open>sendResponse\<close>
  marshals the already encoded bytes once more, so each frame carries the quoted base64
  text of the encoding.
\<close>

theorem single_subscription_data_payloads:
  "Do sample_helpers sample_config sample_service sample_request_ctx ''graphql-ws''
       (Some (0, Inr sample_init)) False 0 = Some (Inr sample_ready)
   \<and> map json_Marshal [GoInt 1, GoInt 2, GoInt 3] = [Inr ''1'', Inr ''2'', Inr ''3'']
   \<and> map_option out (exec sample_helpers sample_ready
          [Inbound 0 sample_start, Payload 2 (GoInt 1), Payload 2 (GoInt 2), Payload 2 (GoInt 3),
           ProducerClosed 2])
     = Some [Frame \<lparr>payload = [], id_m = [], t_m = connectionAckMessageType\<rparr>,
             Frame \<lparr>payload = [], id_m = [], t_m = keepAliveMessageType\<rparr>,
             data_frame ''1'' (CHR 0x22 # ''MQ=='' @ [CHR 0x22]),
             data_frame ''1'' (CHR 0x22 # ''Mg=='' @ [CHR 0x22]),
             data_frame ''1'' (CHR 0x22 # ''Mw=='' @ [CHR 0x22]),
             Frame \<lparr>payload = [], id_m = ''1'', t_m = completeMessageType\<rparr>]"
  using sample_connection_ready sample_payload_encodings sample_single_subscription
  by (intro conjI)

section \<open>A start that reuses a live id\<close>

text \<open>
  C3. On the sample connection the client sends \<open>start\<close> with id 1 twice, and then the
  channel of the first subscription (cancel handle 2) is closed. The deferred function of
  the first goroutine deletes the registry entry of id 1, which by then holds the cancel
  of the second subscription: the registry is left empty while the second goroutine is
  still streaming, so the registry and the set of live subscriptions differ.
\<close>

theorem registry_loses_live_subscription:
  "(case exec sample_helpers sample_ready
            [Inbound 0 sample_start, Inbound 1 sample_start, ProducerClosed 2] of
        None \<Rightarrow> False
      | Some c \<Rightarrow> registry_ids c = {} \<and> live_ids c = {''1''}
                  \<and> map_option task_phase (tasks c 3) = Some Streaming
                  \<and> map_of (active c) ''1'' = None)"
  by code_simp

section \<open>The acknowledgement comes first and once\<close>

lemma kinds_simps [simp]:
  "kinds [] = []" "kinds (Frame m # ws) = t_m m # kinds ws" "kinds (CloseFrame k r # ws) = kinds ws"
  "kinds (xs @ ys) = kinds xs @ kinds ys"
  by (simp_all add: kinds_def)

lemma extends_refl: "extends c c"
  by (simp add: extends_def)

lemma extends_trans: "extends a b \<Longrightarrow> extends b c \<Longrightarrow> extends a c"
  by (auto simp: extends_def)

lemma extends_same: "out c' = out c \<Longrightarrow> me c' = me c \<Longrightarrow> extends c c'"
  by (simp add: extends_def)

lemma kinds_Send:
  "set (kinds (Send ex m)) \<subseteq> {t_m m}"
  "ex = graphqltransportwsMessageExchanger \<Longrightarrow> keepAliveMessageType \<notin> set (kinds (Send ex m))"
  by (auto simp: Send_def split: option.splits)

lemma extends_write: "t_m m \<noteq> connectionAckMessageType \<Longrightarrow> extends c (write_m c m)"
  using kinds_Send [of "me c" m] by (auto simp: extends_def write_m_def)

lemma extends_close: "extends c (close c k r)"
  by (simp add: extends_def close_def)

lemma extends_cancel: "extends c (cancel c h)"
  by (simp add: extends_def cancel_def)

lemma extends_sends:
  "extends c (sendError H c i es)" "extends c (complete c i)" "extends c (sendResponse c i p)"
  "extends c (sendConnectionError H c f args)"
  by (simp_all add: sendError_def complete_def sendResponse_def sendConnectionError_def extends_write)

lemma extends_subscribe: "extends c (subscribe H c m)"
proof (cases "jsonDecodeStart H (payload m)")
  case None
  then show ?thesis
    by (auto simp: subscribe_def intro: extends_trans extends_sends)
next
  case (Some params)
  let ?c1 = "c\<lparr>nextHandle := Suc (nextHandle c), subscribed := subscribed c @ [params]\<rparr>"
  have 1: "extends c ?c1" by (simp add: extends_same)
  show ?thesis
  proof (cases "service ?c1 (context_WithCancel (ctx c) (nextHandle c)) (Query params)
                  (OperationName params) (Variables params)")
    case None
    with Some show ?thesis
      by (auto simp: subscribe_def Let_def withSubscriptionErrorContext_def intro!: extends_same
          split: option.splits)
  next
    case (Some err)
    have "extends ?c1 (cancel (complete (sendError H ?c1 (id_m m) [toGQLError H err]) (id_m m))
                         (nextHandle c))"
      by (blast intro: extends_trans extends_sends extends_cancel)
    with 1 have "extends c (cancel (complete (sendError H ?c1 (id_m m) [toGQLError H err]) (id_m m))
                         (nextHandle c))"
      by (rule extends_trans)
    with Some \<open>jsonDecodeStart H (payload m) = Some params\<close> show ?thesis
      by (simp add: subscribe_def Let_def)
  qed
qed

lemma extends_run_exit: "extends c (run_exit c)"
proof -
  have a: "extends c (case runCtx c of None \<Rightarrow> c | Some (cx, h) \<Rightarrow> cancel c h)"
    by (auto split: option.splits intro: extends_refl extends_cancel)
  have b: "extends x ((close x k r)\<lparr>looping := False\<rparr>)" for x k r
    by (simp add: extends_def close_def)
  from a b show ?thesis
    unfolding run_exit_def Let_def by (blast intro: extends_trans)
qed

lemma extends_dispatch: "extends c (dispatch H c now m)"
proof -
  have stop: "extends c (case map_of (active c) (id_m m) of None \<Rightarrow> c | Some closer \<Rightarrow> cancel c closer)"
    by (auto split: option.splits intro: extends_refl extends_cancel)
  have cl: "extends c (run_exit (close c CloseNormalClosure ''terminated''))"
    by (blast intro: extends_trans extends_close extends_run_exit)
  have un: "extends c (run_exit (close (sendConnectionError H c ''unexpected message %s''
                             [messageType_String H (t_m m)])
                          CloseProtocolError ''unexpected message''))"
    by (blast intro: extends_trans extends_close extends_run_exit extends_sends)
  have pong: "extends c (c\<lparr>readDeadline := Some (time_Add now (2 * PingPongInterval c))\<rparr>)"
    by (simp add: extends_same)
  have ping: "extends c (write_m c \<lparr>payload = payload m, id_m = [], t_m = pongMessageType\<rparr>)"
    by (simp add: extends_write)
  from stop cl un pong ping extends_subscribe [of c H m] show ?thesis
    by (cases "t_m m") (simp_all add: dispatch_def)
qed

lemma extends_task_payload: "extends c (task_payload H c tk p)"
  by (auto simp: task_payload_def split: sum.splits intro: extends_sends)

lemma extends_task_terminal: "extends c (task_terminal H c h tk)"
proof -
  let ?c1 = "if length (getSubscriptionError (task_ctx tk) (errs_heap c)) \<noteq> 0
             then sendError H c (task_id tk) (getSubscriptionError (task_ctx tk) (errs_heap c))
             else complete c (task_id tk)"
  have 1: "extends c ?c1" by (simp add: extends_sends)
  have 2: "extends ?c1 (cancel (?c1\<lparr>active := AList.delete (task_id tk) (active ?c1)\<rparr>) h)"
    by (simp add: extends_def cancel_def)
  from 1 2 show ?thesis
    unfolding task_terminal_def Let_def by (rule extends_trans)
qed

lemma extends_set_phase: "extends c (set_phase c h tk ph)"
  by (simp add: extends_def set_phase_def)

lemma extends_step: "step H c ev = Some c' \<Longrightarrow> extends c c'"
proof (cases ev)
  case (Inbound now m)
  assume "step H c ev = Some c'"
  with Inbound extends_dispatch [of c H now m] show ?thesis
    by (auto simp: step_def split: if_splits)
next
  case (ReadError err)
  assume "step H c ev = Some c'"
  moreover have "extends c (run_exit (handlePossibleError c (Some err) True))"
    by (rule extends_trans [OF _ extends_run_exit])
       (simp add: handlePossibleError_def extends_same)
  ultimately show ?thesis using ReadError extends_run_exit [of c]
    by (auto simp: step_def split: if_splits)
next
  case (Payload h p)
  assume "step H c ev = Some c'"
  with Payload show ?thesis
    by (auto simp: step_def split: if_splits option.splits phase.splits
        intro: extends_task_payload extends_refl)
next
  case (ProducerClosed h)
  assume "step H c ev = Some c'"
  with ProducerClosed show ?thesis
    by (auto simp: step_def split: if_splits option.splits phase.splits
        intro: extends_trans [OF extends_task_terminal extends_set_phase] extends_set_phase)
next
  case (CtxDone h)
  assume "step H c ev = Some c'"
  with CtxDone show ?thesis
    by (auto simp: step_def split: if_splits option.splits phase.splits
        intro: extends_trans [OF extends_task_terminal extends_set_phase])
next
  case KeepAliveTick
  assume "step H c ev = Some c'"
  with KeepAliveTick show ?thesis
    by (auto simp: step_def split: if_splits intro: extends_write)
next
  case KeepAliveStop
  assume "step H c ev = Some c'"
  with KeepAliveStop show ?thesis
    by (auto simp: step_def split: if_splits intro: extends_same)
next
  case PingTick
  assume "step H c ev = Some c'"
  with PingTick show ?thesis
    by (auto simp: step_def split: if_splits intro: extends_write)
next
  case PingStop
  assume "step H c ev = Some c'"
  with PingStop show ?thesis
    by (auto simp: step_def split: if_splits intro: extends_same)
next
  case (ExternalCancel h)
  assume "step H c ev = Some c'"
  with ExternalCancel show ?thesis
    by (auto simp: step_def split: if_splits intro: extends_cancel)
next
  case CloseOnCancel
  assume "step H c ev = Some c'"
  moreover have "extends c ((close x k r)\<lparr>closeWatcher := False\<rparr>)" if "extends c x" for x k r
    using that by (auto simp: extends_def close_def)
  ultimately show ?thesis using CloseOnCancel
    by (auto simp: step_def Let_def split: if_splits option.splits prod.splits
        intro: extends_sends extends_refl)
next
  case (AddError cx e)
  assume "step H c ev = Some c'"
  with AddError show ?thesis
    by (auto simp: step_def split: if_splits intro: extends_same)
qed

lemma extends_exec: "exec H c evs = Some c' \<Longrightarrow> extends c c'"
proof (induction evs arbitrary: c)
  case Nil
  then show ?case by (simp add: extends_refl)
next
  case (Cons ev evs)
  then show ?case
    by (auto split: option.splits intro: extends_trans dest: extends_step)
qed


lemma init_ack_out:
  "init_ack x = (ok, c1) \<Longrightarrow> me x = me c \<Longrightarrow> out x = out c \<Longrightarrow>
     ok \<and> me c1 = me c
     \<and> out c1 = out c @ Frame \<lparr>payload = [], id_m = [], t_m = connectionAckMessageType\<rparr>
           # (if me c = graphqlwsMessageExchanger
              then [Frame \<lparr>payload = [], id_m = [], t_m = keepAliveMessageType\<rparr>] else [])"
  by (cases "me c") (auto simp: init_ack_def write_m_def Send_def)

lemma init_accept_success:
  "init_accept H c m = (True, c1) \<Longrightarrow>
     me c1 = me c
     \<and> out c1 = out c @ Frame \<lparr>payload = [], id_m = [], t_m = connectionAckMessageType\<rparr>
           # (if me c = graphqlwsMessageExchanger
              then [Frame \<lparr>payload = [], id_m = [], t_m = keepAliveMessageType\<rparr>] else [])"
proof -
  assume a: "init_accept H c m = (True, c1)"
  then obtain x where x: "init_ack x = (True, c1)" "me x = me c" "out x = out c"
    by (auto simp: init_accept_def Let_def close_def
        split: sum.splits option.splits if_splits)
  from init_ack_out [OF x] show ?thesis by simp
qed

lemma init_success:
  "init H c a pick = Some (True, c1) \<Longrightarrow>
     me c1 = me c
     \<and> out c1 = out c @ Frame \<lparr>payload = [], id_m = [], t_m = connectionAckMessageType\<rparr>
           # (if me c = graphqlwsMessageExchanger
              then [Frame \<lparr>payload = [], id_m = [], t_m = keepAliveMessageType\<rparr>] else [])"
  by (auto simp: init_def split: option.splits sum.splits if_splits messageType.splits
      dest: init_accept_success)

lemma run_enter_out: "out (run_enter now c) = out c" "me (run_enter now c) = me c"
  by (simp_all add: run_enter_def Let_def)

text \<open>
  C2. When \<open>init\<close> succeeds on a fresh connection, what it has written is
  \<open>connection_ack\<close>, followed by one \<open>keep_alive\<close> exactly when the exchanger is the
  legacy one. Whatever happens afterwards only adds frames behind these, none of them a
  \<open>connection_ack\<close>, and on a modern connection none of them a \<open>keep_alive\<close>.
\<close>

theorem connection_ack_first:
  "init H (newConnection t svc rctx sp ex) a pick = Some (True, c1)
     \<and> exec H (run_enter now c1) evs = Some c2 \<longrightarrow>
   out c1 = Frame \<lparr>payload = [], id_m = [], t_m = connectionAckMessageType\<rparr>
           # (if ex = graphqlwsMessageExchanger
              then [Frame \<lparr>payload = [], id_m = [], t_m = keepAliveMessageType\<rparr>] else [])
   \<and> (\<exists>rest. out c2 = out c1 @ rest
          \<and> connectionAckMessageType \<notin> set (kinds rest)
          \<and> (ex = graphqltransportwsMessageExchanger \<longrightarrow> keepAliveMessageType \<notin> set (kinds rest)))"
proof (intro impI)
  assume pre: "init H (newConnection t svc rctx sp ex) a pick = Some (True, c1)
     \<and> exec H (run_enter now c1) evs = Some c2"
  have new: "out (newConnection t svc rctx sp ex) = []" "me (newConnection t svc rctx sp ex) = ex"
    by (simp_all add: newConnection_def)
  from pre init_success [of H "newConnection t svc rctx sp ex" a pick c1] new
  have c1: "me c1 = ex"
    "out c1 = Frame \<lparr>payload = [], id_m = [], t_m = connectionAckMessageType\<rparr>
           # (if ex = graphqlwsMessageExchanger
              then [Frame \<lparr>payload = [], id_m = [], t_m = keepAliveMessageType\<rparr>] else [])"
    by simp_all
  from pre have "extends (run_enter now c1) c2"
    by (blast dest: extends_exec)
  with c1 have "\<exists>rest. out c2 = out c1 @ rest
          \<and> connectionAckMessageType \<notin> set (kinds rest)
          \<and> (ex = graphqltransportwsMessageExchanger \<longrightarrow> keepAliveMessageType \<notin> set (kinds rest))"
    by (simp add: extends_def run_enter_out)
  with c1 show "out c1 = Frame \<lparr>payload = [], id_m = [], t_m = connectionAckMessageType\<rparr>
           # (if ex = graphqlwsMessageExchanger
              then [Frame \<lparr>payload = [], id_m = [], t_m = keepAliveMessageType\<rparr>] else [])
   \<and> (\<exists>rest. out c2 = out c1 @ rest
          \<and> connectionAckMessageType \<notin> set (kinds rest)
          \<and> (ex = graphqltransportwsMessageExchanger \<longrightarrow> keepAliveMessageType \<notin> set (kinds rest)))"
    by blast
qed

lemma sample_modern_init:
  "init sample_helpers (newConnection sample_modern_config sample_service sample_request_ctx
          graphqltransportwsSubprotocol graphqltransportwsMessageExchanger)
        (Some (0, Inr sample_init)) False = Some (True, sample_modern_acked)"
  by (simp add: init_def NextMessage_def newConnection_def sample_modern_config_def
      sample_config_def sample_init_def init_accept_def sample_modern_acked_def init_ack_def)

lemma sample_modern_run:
  "map_option out (exec sample_helpers (run_enter 5 sample_modern_acked)
       [PingTick, Inbound 9 \<lparr>payload = [], id_m = [], t_m = pongMessageType\<rparr>])
     = Some [Frame \<lparr>payload = [], id_m = [], t_m = connectionAckMessageType\<rparr>,
             Frame \<lparr>payload = [], id_m = [], t_m = pingMessageType\<rparr>]"
  by code_simp

theorem connection_ack_first_witness:
  "\<exists>c2. exec sample_helpers (run_enter 5 sample_modern_acked)
         [PingTick, Inbound 9 \<lparr>payload = [], id_m = [], t_m = pongMessageType\<rparr>] = Some c2
      \<and> out sample_modern_acked = [Frame \<lparr>payload = [], id_m = [], t_m = connectionAckMessageType\<rparr>]
      \<and> (\<exists>rest. out c2 = out sample_modern_acked @ rest
            \<and> connectionAckMessageType \<notin> set (kinds rest)
            \<and> keepAliveMessageType \<notin> set (kinds rest))"
proof -
  from sample_modern_run obtain c2 where
    c2: "exec sample_helpers (run_enter 5 sample_modern_acked)
         [PingTick, Inbound 9 \<lparr>payload = [], id_m = [], t_m = pongMessageType\<rparr>] = Some c2"
    by blast
  from connection_ack_first [of sample_helpers sample_modern_config sample_service
      sample_request_ctx graphqltransportwsSubprotocol graphqltransportwsMessageExchanger
      "Some (0, Inr sample_init)" False sample_modern_acked 5
      "[PingTick, Inbound 9 \<lparr>payload = [], id_m = [], t_m = pongMessageType\<rparr>]" c2]
    sample_modern_init c2
  show ?thesis by auto
qed

section \<open>The frames of one subscription\<close>
















end
